theory Spec2Isabelle
  imports Main "HOL-Library.Sublist"
begin

section \<open>Constituent variables of a CCPP suite (scripts/constituents.py)\<close>

text \<open>
  A shallow embedding of class \<open>ConstituentVarDict\<close>: the scope-fallback lookup
  \<open>find_variable\<close> with its create-on-miss path, and the two Fortran generators
  \<open>write_constituent_routines\<close> and \<open>write_host_routines\<close>.
\<close>

subsection \<open>Variables and errors\<close>

text \<open>
  Class \<open>Var\<close> lives in metavar.py, outside constituents.py. The record holds the
  properties the code reads through \<open>get_prop_value\<close>, \<open>get_dimensions\<close> and
  \<open>is_constituent\<close>, and the two that \<open>clone\<close> is asked to change.
\<close>

record var =
  var_standard_name :: string
  var_local_name :: string
  var_dimensions :: "string list"
  var_advected :: bool
  var_is_constituent :: bool
  var_intent :: "string option"
  var_source_type :: string

datatype error = ParseInternalError string | ValueError string

text \<open>
  Modelled from the spec: \<open>Var.clone\<close> is defined in metavar.py. The call
  \<open>source_var.clone({'dimensions' : newdims}, remove_intent=True, source_type=...)\<close>
  copies the descriptor with the given dimensions, strips the intent and sets the
  source type.
\<close>

definition var_clone :: "var \<Rightarrow> string list \<Rightarrow> string \<Rightarrow> var" where
  "var_clone source_var newdims stype =
     source_var\<lparr>var_dimensions := newdims, var_intent := None, var_source_type := stype\<rparr>"

subsection \<open>Python string helpers\<close>

text \<open>\<open>s.split(c)\<close> for a one-character separator: an empty string gives one empty field.\<close>

fun str_split :: "char \<Rightarrow> string \<Rightarrow> string list" where
  "str_split c [] = [[]]"
| "str_split c (x # xs) =
     (if x = c then [] # str_split c xs
      else (case str_split c xs of
              [] \<Rightarrow> [[x]]
            | w # ws \<Rightarrow> (x # w) # ws))"

text \<open>\<open>sep.join(xs)\<close>.\<close>

fun str_join :: "string \<Rightarrow> string list \<Rightarrow> string" where
  "str_join sep [] = []"
| "str_join sep [x] = x"
| "str_join sep (x # y # ys) = x @ sep @ str_join sep (y # ys)"

subsection \<open>The dictionary\<close>

text \<open>
  Modelled from the spec: class \<open>VarDictionary\<close>, the base class of
  \<open>ConstituentVarDict\<close> (line 27), is defined in metavar.py. A dictionary has a name, an
  ordered mapping from standard names to variables, and an optional parent; the chain
  of parents ends at a dictionary that has none.
\<close>

datatype var_dictionary =
  VarDictionary (vd_name: string) (vd_vars: "(string \<times> var) list")
    (vd_parent: "var_dictionary option")

text \<open>
  A \<open>ConstituentVarDict\<close> is such a dictionary of its own class. The parent is what the
  constructor is given (lines 40 to 51): a dictionary of the base class on the way to the
  host model (\<open>self.parent.parent\<close>, lines 327 to 335), never another
  \<open>ConstituentVarDict\<close>. The parent object is shared and mutable in Python; here a call
  returns the dictionary together with the parent as the call left it.
\<close>

datatype cvdict =
  ConstituentVarDict (dict_name: string) (dict_vars: "(string \<times> var) list")
    (parent_dict: "var_dictionary option")

definition constituent_type :: string where
  "constituent_type = ''suite''"

text \<open>
  Modelled from the spec: \<open>VarDictionary.add_variable\<close> is defined in metavar.py. It
  stores the variable under its standard name; the dictionary keeps insertion order, so
  a new name goes last. \<open>find_variable\<close> reaches it only for a name that is not a key
  of the dictionary.
\<close>

fun add_variable :: "cvdict \<Rightarrow> var \<Rightarrow> cvdict" where
  "add_variable (ConstituentVarDict name vars parent) newvar =
     ConstituentVarDict name (vars @ [(var_standard_name newvar, newvar)]) parent"

text \<open>Lines 71 to 84: which standard name is looked up, or the internal error.\<close>

definition check_standard_name :: "string option \<Rightarrow> var option \<Rightarrow> error + string" where
  "check_standard_name standard_name source_var =
     (case standard_name of
        None \<Rightarrow>
          (case source_var of
             None \<Rightarrow> Inl (ParseInternalError
                       ''One of <standard_name> or <source_var> must be passed.'')
           | Some sv \<Rightarrow> Inr (var_standard_name sv))
      | Some sname \<Rightarrow>
          (case source_var of
             None \<Rightarrow> Inr sname
           | Some sv \<Rightarrow>
               if var_standard_name sv \<noteq> sname
               then Inl (ParseInternalError
                       ''Only one of <standard_name> or <source_var> may be passed.'')
               else Inr sname))"

text \<open>Lines 107 to 116: the substitution of one dimension name.\<close>

definition loop_subst_name :: "string \<Rightarrow> string" where
  "loop_subst_name dstdname =
     (if dstdname = ''horizontal_loop_extent'' then ''horizontal_dimension''
      else if dstdname = ''horizontal_loop_end'' then ''horizontal_dimension''
      else if dstdname = ''horizontal_loop_begin'' then ''ccpp_constant_one''
      else dstdname)"

text \<open>Lines 102 to 119: the new dimensions of a constituent.\<close>

definition loop_subst_dims :: "string list \<Rightarrow> string list" where
  "loop_subst_dims dims =
     map (\<lambda>dim. str_join '':'' (map loop_subst_name (str_split (CHR '':'') dim))) dims"

text \<open>
  Lines 98 to 123: with no variable found and a constituent \<open>source_var\<close>, a clone of
  it is added to \<open>self\<close> and returned.
\<close>

definition add_if_constituent ::
  "cvdict \<Rightarrow> var option \<Rightarrow> var option \<Rightarrow> var option \<times> cvdict" where
  "add_if_constituent self found source_var =
     (case found of
        Some v \<Rightarrow> (Some v, self)
      | None \<Rightarrow>
          (case source_var of
             None \<Rightarrow> (None, self)
           | Some sv \<Rightarrow>
               if var_is_constituent sv
               then (let newvar = var_clone sv (loop_subst_dims (var_dimensions sv))
                                    constituent_type
                     in (Some newvar, add_variable self newvar))
               else (None, self)))"

text \<open>
  The method that line 89 calls on the parent is \<open>find_variable\<close> of the parent's class,
  which constituents.py does not define. It is an argument of the model: given the
  parent and the six arguments of the call, it raises or returns a variable (or \<open>None\<close>)
  and the parent as it is after the call.
\<close>

type_synonym parent_method =
  "var_dictionary \<Rightarrow> string option \<Rightarrow> var option \<Rightarrow> bool \<Rightarrow> var option \<Rightarrow> bool \<Rightarrow> bool
     \<Rightarrow> error + (var option \<times> var_dictionary)"

text \<open>
  \<open>find_variable\<close>, lines 53 to 123. The result is the error raised, or the variable
  returned (\<open>None\<close> as in Python) with the dictionary after the call. Lines 87 to 94:
  the parent is asked for the name that passed the check, with \<open>source_var\<close>,
  \<open>any_scope\<close>, \<open>search_call_list\<close> and \<open>loop_subst\<close> as they came in and \<open>None\<close> for
  \<open>clone\<close>.
\<close>

definition find_variable ::
  "parent_method \<Rightarrow> cvdict \<Rightarrow> string option \<Rightarrow> var option \<Rightarrow> bool \<Rightarrow> var option \<Rightarrow> bool
     \<Rightarrow> bool \<Rightarrow> error + (var option \<times> cvdict)" where
  "find_variable parent_find_variable self standard_name source_var any_scope clone
       search_call_list loop_subst =
     (case check_standard_name standard_name source_var of
        Inl e \<Rightarrow> Inl e
      | Inr sname \<Rightarrow>
          (case map_of (dict_vars self) sname of
             Some v \<Rightarrow> Inr (add_if_constituent self (Some v) source_var)
           | None \<Rightarrow>
               (case (if any_scope then parent_dict self else None) of
                  Some p \<Rightarrow>
                    (case parent_find_variable p (Some sname) source_var any_scope None
                            search_call_list loop_subst of
                       Inl e \<Rightarrow> Inl e
                     | Inr (found, p') \<Rightarrow>
                         Inr (add_if_constituent
                                (ConstituentVarDict (dict_name self) (dict_vars self)
                                   (Some p'))
                                found source_var))
                | None \<Rightarrow> Inr (add_if_constituent self None source_var))))"

subsection \<open>The lookup of the base class\<close>

text \<open>
  Modelled from the spec: \<open>VarDictionary.find_variable\<close> is defined in metavar.py. It
  makes the check of the two name arguments, looks the name up in the dictionary and,
  when it is not there, \<open>any_scope\<close> is true and there is a parent, asks the parent in
  the same way; a name that no dictionary of the chain has gives \<open>None\<close>. It only
  reads: the dictionary and its parents are after the call what they were before.
  Nothing is modelled for a \<open>clone\<close> other than \<open>None\<close>, which \<open>ConstituentVarDict\<close>
  never passes, nor for the names of \<open>CCPP_CONSTANT_VARS\<close>, which the docstring of
  lines 61 to 63 leaves to the base class and the spec does not describe.
\<close>

fun VarDictionary_find_variable :: parent_method where
  "VarDictionary_find_variable (VarDictionary name vars parent) standard_name source_var
       any_scope clone search_call_list loop_subst =
     (case check_standard_name standard_name source_var of
        Inl e \<Rightarrow> Inl e
      | Inr sname \<Rightarrow>
          (case map_of vars sname of
             Some v \<Rightarrow> Inr (Some v, VarDictionary name vars parent)
           | None \<Rightarrow>
               (case parent of
                  None \<Rightarrow> Inr (None, VarDictionary name vars parent)
                | Some p \<Rightarrow>
                    if any_scope
                    then (case VarDictionary_find_variable p (Some sname) source_var
                                 any_scope None search_call_list loop_subst of
                            Inl e \<Rightarrow> Inl e
                          | Inr (found, p') \<Rightarrow>
                              Inr (found, VarDictionary name vars parent))
                    else Inr (None, VarDictionary name vars parent))))"

subsection \<open>Where a name is\<close>



text \<open>The variable a name stands for in the parent or else in the nearest dictionary above.\<close>

fun ancestor_lookup :: "string \<Rightarrow> var_dictionary \<Rightarrow> var option" where
  "ancestor_lookup sname (VarDictionary name vars None) = map_of vars sname"
| "ancestor_lookup sname (VarDictionary name vars (Some p)) =
     (case map_of vars sname of Some v \<Rightarrow> Some v | None \<Rightarrow> ancestor_lookup sname p)"

subsection \<open>The output file\<close>

text \<open>
  The writers only call \<open>outfile.write(line, indent)\<close> on the \<open>FortranWriter\<close> they
  are given. The file is modelled by the calls made on it, in order: a list of lines
  with their indent levels, and consecutive calls append to it. A writer that may raise
  returns the error together with the file as it was when the error was raised.
\<close>

type_synonym outfile = "(string \<times> int) list"

type_synonym writer_result = "(error \<times> outfile) + outfile"

text \<open>What the file holds after the call, whether it returned or raised.\<close>

fun written :: "writer_result \<Rightarrow> outfile" where
  "written (Inl (e, outfile)) = outfile"
| "written (Inr outfile) = outfile"

text \<open>The quote characters and the newline of the Fortran lines.\<close>

abbreviation sq :: string where "sq \<equiv> [CHR 0x27]"

abbreviation dq :: string where "dq \<equiv> [CHR 0x22]"

abbreviation nl :: string where "nl \<equiv> [CHR 0x0A]"

text \<open>\<open>"{}".format(n)\<close> for a length: the decimal digits of \<open>n\<close>.\<close>

fun str_of_nat :: "nat \<Rightarrow> string" where
  "str_of_nat n =
     (if n < 10 then [''0123456789'' ! n]
      else str_of_nat (n div 10) @ [''0123456789'' ! (n mod 10)])"

text \<open>The number that a string of decimal digits stands for.\<close>

definition nat_of_str :: "string \<Rightarrow> nat" where
  "nat_of_str s = fold (\<lambda>c n. 10 * n + (of_char c - 48)) s 0"

subsection \<open>Names\<close>

definition CONST_DDT_NAME :: string where
  "CONST_DDT_NAME = ''ccpp_model_constituents_t''"

definition CONST_DDT_MOD :: string where
  "CONST_DDT_MOD = ''ccpp_constituent_prop_mod''"

definition CONST_PROP_TYPE :: string where
  "CONST_PROP_TYPE = ''ccpp_constituent_properties_t''"

definition constituent_prop_array_name :: string where
  "constituent_prop_array_name = ''ccpp_constituent_array''"

definition constituent_prop_init_name :: string where
  "constituent_prop_init_name = ''ccpp_constituents_initialized''"

definition constituent_prop_init_consts :: string where
  "constituent_prop_init_consts = ''ccpp_create_constituent_array''"

definition constituent_prop_type_name :: string where
  "constituent_prop_type_name = ''ccpp_constituent_properties_t''"

definition num_consts_funcname :: "cvdict \<Rightarrow> string" where
  "num_consts_funcname self = dict_name self @ ''_num_consts''"

definition const_name_subname :: "cvdict \<Rightarrow> string" where
  "const_name_subname self = dict_name self @ ''_const_name''"

definition copy_const_subname :: "cvdict \<Rightarrow> string" where
  "copy_const_subname self = dict_name self @ ''_copy_const''"

definition TF_string :: "bool \<Rightarrow> string" where
  "TF_string tf_val = (if tf_val then ''.true.'' else ''.false.'')"

text \<open>
  Modelled from the spec: \<open>Var.get_dim_stdnames\<close> is defined in metavar.py. The
  dimension names of a variable are the names its dimensions are made of, a dimension
  being one name or a range \<open>begin:end\<close>.
\<close>

definition get_dim_stdnames :: "var \<Rightarrow> string list" where
  "get_dim_stdnames v = concat (map (str_split (CHR '':'')) (var_dimensions v))"

subsection \<open>The suite's routines\<close>

text \<open>
  The definitions below follow \<open>write_constituent_routines\<close> section by section, in
  the order of the source; each gives the lines that its section writes.
  \<open>Var.write_def\<close> is defined in metavar.py and is a parameter:
  \<open>write_def evar indent self\<close> are the lines that
  \<open>evar.write_def(outfile, indent, self, dummy=True)\<close> writes to the file.
\<close>

text \<open>Lines 214 to 219: the formatted error variables.\<close>

definition errvar_alist :: "string list \<Rightarrow> string" where
  "errvar_alist errvar_names = str_join '', '' errvar_names"

definition errvar_alist2 :: "string list \<Rightarrow> string" where
  "errvar_alist2 errvar_names =
     (if errvar_alist errvar_names \<noteq> [] then '', '' @ errvar_alist errvar_names else '''')"

definition errvar_call :: "string list \<Rightarrow> string" where
  "errvar_call errvar_names = str_join '', '' (map (\<lambda>x. x @ ''='' @ x) errvar_names)"

definition errvar_call2 :: "string list \<Rightarrow> string" where
  "errvar_call2 errvar_names =
     (if errvar_call errvar_names \<noteq> [] then '', '' @ errvar_call errvar_names else '''')"

text \<open>The loop \<open>for evar in err_vars: evar.write_def(outfile, indent+1, self, dummy=True)\<close>.\<close>

definition write_dummy_args ::
  "(var \<Rightarrow> int \<Rightarrow> cvdict \<Rightarrow> outfile) \<Rightarrow> cvdict \<Rightarrow> int \<Rightarrow> var list \<Rightarrow> outfile" where
  "write_dummy_args write_def self indent err_vars =
     concat (map (\<lambda>evar. write_def evar (indent + 1) self) err_vars)"

text \<open>The line of 72 equal signs written between two routines, at indent 1.\<close>

definition routine_separator :: "string \<times> int" where
  "routine_separator = (nl @ ''! '' @ replicate 72 (CHR ''='') @ nl, 1)"

text \<open>Lines 165 to 174 of \<open>_write_init_check\<close>: the check of the initialized flag.\<close>

definition init_check_lines :: "int \<Rightarrow> string \<Rightarrow> outfile" where
  "init_check_lines indent suite_name =
     [(''! Make sure that our constituent array is initialized'', indent + 1),
      (''if (.not. '' @ constituent_prop_init_name @ '') then'', indent + 1),
      (''errflg = 1'', indent + 2),
      (''errmsg = '' @ dq @ ''constituent properties not initialized for suite, ''
        @ suite_name @ dq, indent + 2),
      (''end if'', indent + 1)]"

text \<open>\<open>_write_init_check\<close>, lines 153 to 175.\<close>

definition write_init_check ::
  "cvdict \<Rightarrow> outfile \<Rightarrow> int \<Rightarrow> string \<Rightarrow> string list \<Rightarrow> bool \<Rightarrow> writer_result" where
  "write_init_check self outfile indent suite_name errvar_names use_errflg =
     (let outfile1 = outfile @ [('''', 0)]
      in if use_errflg
         then Inr (outfile1 @
                   [(''errflg = 0'', indent + 1),
                    (''errmsg = '' @ sq @ sq, indent + 1)] @
                   init_check_lines indent suite_name)
         else Inl (ParseInternalError ''Alternative to errflg not implemented'', outfile1))"

text \<open>Lines 183 to 203 of \<open>_write_index_check\<close>: the check of the index.\<close>

definition index_check_lines :: "cvdict \<Rightarrow> int \<Rightarrow> outfile" where
  "index_check_lines self indent =
     (if dict_vars self \<noteq> []
      then [(''if (index < 1) then'', indent + 1),
            (''errflg = 1'', indent + 2),
            (''write(errmsg, '' @ sq @ ''(a,i0,a)'' @ sq @ '') '' @ sq @ ''ERROR: index (''
              @ sq @ '',index,'' @ sq @ '') too small, must be >= 1'' @ sq, indent + 2),
            (''else if (index > SIZE('' @ constituent_prop_array_name
              @ '')) then'', indent + 1),
            (''errflg = 1'', indent + 2),
            (''write(errmsg, '' @ sq @ ''(2(a,i0))'' @ sq @ '') '' @ sq @ ''ERROR: index (''
              @ sq @ '',index,'' @ sq @ '') too large, must be <= '' @ sq @ '', SIZE(''
              @ constituent_prop_array_name @ '')'', indent + 2),
            (''end if'', indent + 1)]
      else [(''errflg = 1'', indent + 1),
            (''write(errmsg, '' @ sq @ ''(a,i0,a)'' @ sq @ '') '' @ sq
              @ ''ERROR: suite, {}, has no constituents'' @ sq, indent + 1)])"

text \<open>\<open>_write_index_check\<close>, lines 177 to 206.\<close>

definition write_index_check ::
  "cvdict \<Rightarrow> outfile \<Rightarrow> int \<Rightarrow> string \<Rightarrow> string list \<Rightarrow> bool \<Rightarrow> writer_result" where
  "write_index_check self outfile indent suite_name errvar_names use_errflg =
     (if use_errflg
      then Inr (outfile @ index_check_lines self indent)
      else Inl (ParseInternalError ''Alternative to errflg not implemented'', outfile))"

text \<open>Lines 239 to 253: the two lines written for one entry of the dictionary.\<close>

definition init_entry_lines :: "int \<Rightarrow> string list \<Rightarrow> string \<times> var \<Rightarrow> outfile" where
  "init_entry_lines indent errvar_names =
     (\<lambda>(std_name, var).
        let dims = get_dim_stdnames var;
            vertical_dim =
              (if ''vertical_layer_dimension'' \<in> set dims
               then ''vertical_layer_dimension''
               else if ''vertical_interface_dimension'' \<in> set dims
               then ''vertical_interface_dimension''
               else '''');
            advect_str = TF_string (var_advected var)
        in [(''index = index + 1'', indent + 1),
            (''call '' @ constituent_prop_array_name @ ''(index)%initialize('' @ dq
              @ std_name @ dq @ '', '' @ dq @ vertical_dim @ dq @ '', '' @ advect_str
              @ errvar_call2 errvar_names @ '')'', indent + 1)])"

text \<open>Lines 220 to 260: the routine that allocates and defines the constituents.\<close>

definition init_routine_lines ::
  "(var \<Rightarrow> int \<Rightarrow> cvdict \<Rightarrow> outfile) \<Rightarrow> cvdict \<Rightarrow> int \<Rightarrow> var list \<Rightarrow> outfile" where
  "init_routine_lines write_def self indent err_vars =
     (let errvar_names = map var_local_name err_vars
      in [(''subroutine '' @ constituent_prop_init_consts @ ''(''
            @ errvar_alist errvar_names @ '')'', indent),
          (''! Allocate and fill the constituent property array'', indent + 1),
          (''!    for this suite'', indent + 1),
          (''! Dummy arguments'', indent + 1)] @
         write_dummy_args write_def self indent err_vars @
         (if dict_vars self \<noteq> []
          then [(''! Local variables'', indent + 1),
                (''integer :: index'', indent + 1),
                (''allocate('' @ constituent_prop_array_name @ ''(''
                  @ str_of_nat (length (dict_vars self)) @ ''))'', indent + 1),
                (''index = 0'', indent + 1)]
          else []) @
         concat (map (init_entry_lines indent errvar_names) (dict_vars self)) @
         [(constituent_prop_init_name @ '' = .true.'', indent + 1),
          (''end subroutine '' @ constituent_prop_init_consts, indent),
          ('''', 0),
          routine_separator])"

text \<open>Lines 261 to 280: the function that returns the number of constituents.\<close>

definition count_routine_lines ::
  "(var \<Rightarrow> int \<Rightarrow> cvdict \<Rightarrow> outfile) \<Rightarrow> cvdict \<Rightarrow> int \<Rightarrow> var list \<Rightarrow> outfile" where
  "count_routine_lines write_def self indent err_vars =
     (let errvar_names = map var_local_name err_vars;
          fname = num_consts_funcname self
      in [(''integer function '' @ fname @ ''('' @ errvar_alist errvar_names
            @ '')'', indent),
          (''! Return the number of constituents for this suite'', indent + 1),
          (''! Dummy arguments'', indent + 1)] @
         write_dummy_args write_def self indent err_vars @
         [(''! Make sure that our constituent array is initialized'', indent + 1),
          (''if (.not. '' @ constituent_prop_init_name @ '') then'', indent + 1),
          (''call '' @ constituent_prop_init_consts @ ''('' @ errvar_call errvar_names
            @ '')'', indent + 2),
          (''end if'', indent + 1),
          (fname @ '' = '' @ str_of_nat (length (dict_vars self)), indent + 1),
          (''end function '' @ fname, indent),
          routine_separator])"

text \<open>Lines 281 to 291: the head of the routine that returns a constituent's name.\<close>

definition name_routine_head ::
  "(var \<Rightarrow> int \<Rightarrow> cvdict \<Rightarrow> outfile) \<Rightarrow> cvdict \<Rightarrow> int \<Rightarrow> var list \<Rightarrow> outfile" where
  "name_routine_head write_def self indent err_vars =
     (let errvar_names = map var_local_name err_vars
      in [(''subroutine '' @ const_name_subname self @ ''(index, name_out''
            @ errvar_alist2 errvar_names @ '')'', indent),
          (''! Return the name of constituent, <index>'', indent + 1),
          (''! Dummy arguments'', indent + 1),
          (''integer,            intent(in)    :: index'', indent + 1),
          (''character(len=*),   intent(out)   :: name_out'', indent + 1)] @
         write_dummy_args write_def self indent err_vars)"

text \<open>Lines 296 to 303: the read of the name and the end of the routine.\<close>

definition name_routine_tail :: "cvdict \<Rightarrow> int \<Rightarrow> var list \<Rightarrow> outfile" where
  "name_routine_tail self indent err_vars =
     (let errvar_names = map var_local_name err_vars
      in (if dict_vars self \<noteq> []
          then [(''call '' @ constituent_prop_array_name
                  @ ''(index)%standard_name(name_out'' @ errvar_call2 errvar_names
                  @ '')'', indent + 1)]
          else []) @
         [(''end subroutine '' @ const_name_subname self, indent),
          routine_separator])"

text \<open>Lines 304 to 315: the head of the routine that copies a constituent's properties.\<close>

definition copy_routine_head ::
  "(var \<Rightarrow> int \<Rightarrow> cvdict \<Rightarrow> outfile) \<Rightarrow> cvdict \<Rightarrow> int \<Rightarrow> var list \<Rightarrow> outfile" where
  "copy_routine_head write_def self indent err_vars =
     (let errvar_names = map var_local_name err_vars;
          fname = copy_const_subname self
      in [(''subroutine '' @ fname @ ''(index, cnst_out'' @ errvar_alist2 errvar_names
            @ '')'', indent),
          (''! Copy the data for a constituent'', indent + 1),
          (''! Dummy arguments'', indent + 1),
          (''integer,            intent(in)    :: index'', indent + 1),
          (''type('' @ constituent_prop_type_name
            @ ''), intent(out)     :: cnst_out'', indent + 1)] @
         write_dummy_args write_def self indent err_vars)"

text \<open>Lines 320 to 325: the copy and the end of the routine.\<close>

definition copy_routine_tail :: "cvdict \<Rightarrow> int \<Rightarrow> outfile" where
  "copy_routine_tail self indent =
     (let fname = copy_const_subname self
      in (if dict_vars self \<noteq> []
          then [(''cnst_out = '' @ constituent_prop_array_name @ ''(index)'', indent + 1)]
          else []) @
         [(''end subroutine '' @ fname, indent)])"

text \<open>
  \<open>write_constituent_routines\<close>, lines 208 to 325: the four routines in order. The two
  checks are the only calls that may raise; what was written before stays in the file.
\<close>

definition write_constituent_routines ::
  "(var \<Rightarrow> int \<Rightarrow> cvdict \<Rightarrow> outfile) \<Rightarrow> cvdict \<Rightarrow> outfile \<Rightarrow> int \<Rightarrow> string \<Rightarrow> var list
     \<Rightarrow> writer_result" where
  "write_constituent_routines write_def self outfile indent suite_name err_vars =
     (let errvar_names = map var_local_name err_vars;
          use_errflg = (''errflg'' \<in> set errvar_names \<and> ''errmsg'' \<in> set errvar_names);
          outfile1 = outfile @ init_routine_lines write_def self indent err_vars;
          outfile2 = outfile1 @ count_routine_lines write_def self indent err_vars;
          outfile3 = outfile2 @ name_routine_head write_def self indent err_vars
      in case write_init_check self outfile3 indent suite_name errvar_names use_errflg of
           Inl e \<Rightarrow> Inl e
         | Inr outfile4 \<Rightarrow>
      (case write_index_check self outfile4 indent suite_name errvar_names use_errflg of
           Inl e \<Rightarrow> Inl e
         | Inr outfile5 \<Rightarrow>
      (let outfile6 = outfile5 @ name_routine_tail self indent err_vars;
           outfile7 = outfile6 @ copy_routine_head write_def self indent err_vars
       in case write_init_check self outfile7 indent suite_name errvar_names use_errflg of
            Inl e \<Rightarrow> Inl e
          | Inr outfile8 \<Rightarrow>
       (case write_index_check self outfile8 indent suite_name errvar_names use_errflg of
            Inl e \<Rightarrow> Inl e
          | Inr outfile9 \<Rightarrow> Inr (outfile9 @ copy_routine_tail self indent)))))"

subsection \<open>Reading the generated Fortran\<close>

text \<open>
  Which statements of a generated block run. The block is a list of lines with block
  \<open>if\<close> statements (\<open>if (...) then\<close>, \<open>else if (...) then\<close>, \<open>else\<close>, \<open>end if\<close>)
  and \<open>holds\<close> says, of each \<open>if\<close> and \<open>else if\<close> line, whether its condition is true
  when the line is reached. The stack has one entry for each open \<open>if\<close>: whether the
  branch being read runs, and whether a branch of that \<open>if\<close> has been taken.
\<close>

fun executed_from ::
  "(string \<Rightarrow> bool) \<Rightarrow> (bool \<times> bool) list \<Rightarrow> string list \<Rightarrow> string list" where
  "executed_from holds stack [] = []"
| "executed_from holds stack (l # ls) =
     (let running = (case stack of [] \<Rightarrow> True | (r, t) # rest \<Rightarrow> r)
      in if prefix ''if ('' l
         then executed_from holds ((running \<and> holds l, holds l) # stack) ls
         else if prefix ''else if ('' l
         then (case stack of
                 [] \<Rightarrow> executed_from holds [] ls
               | (r, t) # rest \<Rightarrow>
                   let outer = (case rest of [] \<Rightarrow> True | (r', t') # rest' \<Rightarrow> r')
                   in executed_from holds
                        ((outer \<and> \<not> t \<and> holds l, t \<or> holds l) # rest) ls)
         else if l = ''else''
         then (case stack of
                 [] \<Rightarrow> executed_from holds [] ls
               | (r, t) # rest \<Rightarrow>
                   let outer = (case rest of [] \<Rightarrow> True | (r', t') # rest' \<Rightarrow> r')
                   in executed_from holds ((outer \<and> \<not> t, True) # rest) ls)
         else if l = ''end if''
         then executed_from holds (tl stack) ls
         else if running then l # executed_from holds stack ls
         else executed_from holds stack ls)"

definition executed :: "(string \<Rightarrow> bool) \<Rightarrow> string list \<Rightarrow> string list" where
  "executed holds ls = executed_from holds [] ls"

subsection \<open>The host's routines\<close>

text \<open>
  A suite as the writers see it: \<open>suite.name\<close>, \<open>suite.module\<close> and
  \<open>suite.constituent_dictionary()\<close>.
\<close>

record suite =
  suite_name_of :: string
  suite_module_of :: string
  constituent_dictionary :: cvdict

text \<open>Lines 361 to 378: the use statements, for a list that has a suite.\<close>

definition use_statement_lines :: "suite list \<Rightarrow> int \<Rightarrow> outfile" where
  "use_statement_lines suite_list indent =
     (let maxmod = Max (set (map (\<lambda>s. length (suite_module_of s)) suite_list));
          smod = length CONST_DDT_MOD;
          maxmod = max maxmod smod;
          spc = replicate (maxmod - smod) (CHR '' '')
      in [(''use '' @ CONST_DDT_MOD @ '','' @ spc @ '' only: '' @ CONST_PROP_TYPE, indent),
          (''! Suite constituent interfaces'', indent)] @
         concat (map
           (\<lambda>suite.
              let const_dict = constituent_dictionary suite;
                  smod = suite_module_of suite;
                  spc = replicate (maxmod - length smod) (CHR '' '')
              in [(''use '' @ smod @ '','' @ spc @ '' only: ''
                    @ num_consts_funcname const_dict, indent),
                  (''use '' @ smod @ '','' @ spc @ '' only: ''
                    @ const_name_subname const_dict, indent),
                  (''use '' @ smod @ '','' @ spc @ '' only: ''
                    @ copy_const_subname const_dict, indent)])
           suite_list))"

text \<open>
  \<open>write_constituent_use_statements\<close>, lines 357 to 378. \<open>max\<close> of an empty list
  raises \<open>ValueError\<close>, before anything is written.
\<close>

definition write_constituent_use_statements ::
  "outfile \<Rightarrow> suite list \<Rightarrow> int \<Rightarrow> writer_result" where
  "write_constituent_use_statements cap suite_list indent =
     (if suite_list = []
      then Inl (ValueError ''max() arg is an empty sequence'', cap)
      else Inr (cap @ use_statement_lines suite_list indent))"

text \<open>
  The definitions below follow \<open>write_host_routines\<close> section by section.
  \<open>write_def evar indent host\<close> are the lines that
  \<open>evar.write_def(cap, indent, host, dummy=True, add_intent="out")\<close> writes; the host
  model is used for nothing else and its type is left open.
\<close>

text \<open>The names of the four routines are given by the caller.\<close>

type_synonym routine_name = string

definition err_callstr :: string where
  "err_callstr = ''errflg=errflg, errmsg=errmsg''"

definition errvar_str :: "var list \<Rightarrow> string" where
  "errvar_str err_vars = str_join '', '' (map var_local_name err_vars)"

definition host_dummy_args :: "(var \<Rightarrow> int \<Rightarrow> 'h \<Rightarrow> outfile) \<Rightarrow> 'h \<Rightarrow> var list \<Rightarrow> outfile" where
  "host_dummy_args write_def host err_vars =
     concat (map (\<lambda>evar. write_def evar 2 host) err_vars)"

text \<open>Lines 400 to 405: the head of the registration routine.\<close>

definition reg_routine_head :: "string \<Rightarrow> var list \<Rightarrow> outfile" where
  "reg_routine_head reg_funcname err_vars =
     (let errvar_str = errvar_str err_vars;
          substmt = ''subroutine '' @ reg_funcname
      in [(substmt @ ''(suite_list, ncols, num_layers, num_interfaces, '' @ errvar_str
            @ '')'', 1),
          (''! Create constituent object for suites in <suite_list>'', 2),
          ('''', 0)])"

text \<open>Lines 407 to 424: the declarations of the registration routine.\<close>

definition reg_routine_decls ::
  "(var \<Rightarrow> int \<Rightarrow> 'h \<Rightarrow> outfile) \<Rightarrow> 'h \<Rightarrow> var list \<Rightarrow> outfile" where
  "reg_routine_decls write_def host err_vars =
     (let spc = replicate 37 (CHR '' '')
      in [('''', 0),
          (''! Dummy arguments'', 2),
          (''character(len=*),   intent(in)    :: suite_list(:)'', 2),
          (''integer,            intent(in)    :: ncols'', 2),
          (''integer,            intent(in)    :: num_layers'', 2),
          (''integer,            intent(in)    :: num_interfaces'', 2)] @
         host_dummy_args write_def host err_vars @
         [(''! Local variables'', 2),
          (''integer'' @ spc @ '' :: num_suite_consts'', 2),
          (''integer'' @ spc @ '' :: num_consts'', 2),
          (''integer'' @ spc @ '' :: index'', 2),
          (''integer'' @ spc @ '' :: field_ind'', 2),
          (''type('' @ CONST_PROP_TYPE @ ''), pointer :: const_prop'', 2),
          ('''', 0),
          (''num_consts = 0'', 2)])"

text \<open>Lines 425 to 433: the number of constituents of one suite is added up.\<close>

definition count_suite_lines :: "var list \<Rightarrow> suite \<Rightarrow> outfile" where
  "count_suite_lines err_vars suite =
     (let errvar_str = errvar_str err_vars;
          const_dict = constituent_dictionary suite;
          funcname = num_consts_funcname const_dict
      in [(''! Number of suite constants for '' @ suite_name_of suite, 2),
          (''num_suite_consts = '' @ funcname @ ''('' @ errvar_str @ '')'', 2),
          (''num_consts = num_consts + num_suite_consts'', 2)])"

text \<open>Lines 434 to 438: the table is initialized.\<close>

definition init_table_lines :: "string \<Rightarrow> outfile" where
  "init_table_lines const_obj_name =
     [(''if (errflg == 0) then'', 2),
      (''! Initialize constituent data and field object'', 3),
      (''call '' @ const_obj_name @ ''%initialize_table(num_consts)'', 3),
      (''end if'', 2)]"

text \<open>Lines 439 to 467: the constituents of one suite are added to the table.\<close>

definition add_suite_lines :: "string \<Rightarrow> var list \<Rightarrow> suite \<Rightarrow> outfile" where
  "add_suite_lines const_obj_name err_vars suite =
     (let errvar_str = errvar_str err_vars;
          const_dict = constituent_dictionary suite
      in (let funcname = num_consts_funcname const_dict
          in [(''if (errflg == 0) then'', 2),
              (''! Add '' @ suite_name_of suite @ '' constituent metadata'', 3),
              (''num_suite_consts = '' @ funcname @ ''('' @ errvar_str @ '')'', 3),
              (''end if'', 2)]) @
         (let funcname = copy_const_subname const_dict
          in [(''do index = 1, num_suite_consts'', 2),
              (''allocate(const_prop, stat=errflg)'', 3),
              (''if (errflg /= 0) then'', 3),
              (''errmsg = '' @ dq @ ''ERROR allocating const_prop'' @ dq, 4),
              (''end if'', 3),
              (''if (errflg == 0) then'', 3),
              (''call '' @ funcname @ ''(index, const_prop, '' @ err_callstr @ '')'', 4),
              (''end if'', 3),
              (''if (errflg == 0) then'', 3),
              (''call '' @ const_obj_name @ ''%new_field(const_prop, '' @ err_callstr
                @ '')'', 4),
              (''end if'', 3),
              (''nullify(const_prop)'', 3),
              (''if (errflg /= 0) then'', 3),
              (''exit'', 4),
              (''end if'', 3),
              (''end do'', 2),
              ('''', 0)]))"

text \<open>Lines 468 to 471: the table is locked.\<close>

definition lock_table_lines :: "string \<Rightarrow> outfile" where
  "lock_table_lines const_obj_name =
     [(''if (errflg == 0) then'', 2),
      (''call '' @ const_obj_name @ ''%lock_table(ncols, num_layers, num_interfaces, ''
        @ err_callstr @ '')'', 3),
      (''end if'', 2)]"

text \<open>Lines 472 to 486: the index of each required constituent is looked up.\<close>

definition index_loop_lines :: "string \<Rightarrow> string \<Rightarrow> string \<Rightarrow> outfile" where
  "index_loop_lines const_obj_name const_names_name const_indices_name =
     [(''! Set the index for each active constituent'', 2),
      (''do index = 1, SIZE('' @ const_indices_name @ '')'', 2),
      (''field_ind = '' @ const_obj_name @ ''%field_index('' @ const_names_name
        @ ''(index), '' @ err_callstr @ '')'', 3),
      (''if (field_ind > 0) then'', 3),
      (const_indices_name @ ''(index) = field_ind'', 4),
      (''else'', 3),
      (''errflg = 1'', 4),
      (''errmsg = '' @ sq @ ''No field index for '' @ sq @ ''//trim('' @ const_names_name
        @ ''(index))'', 4),
      (''end if'', 3),
      (''if (errflg /= 0) then'', 3),
      (''exit'', 4),
      (''end if'', 3),
      (''end do'', 2)]"

text \<open>Lines 488 to 502: the function that returns the number of constituents.\<close>

definition num_consts_routine ::
  "(var \<Rightarrow> int \<Rightarrow> 'h \<Rightarrow> outfile) \<Rightarrow> 'h \<Rightarrow> string \<Rightarrow> string \<Rightarrow> var list \<Rightarrow> outfile" where
  "num_consts_routine write_def host num_const_funcname const_obj_name err_vars =
     (let errvar_str = errvar_str err_vars;
          substmt = ''function '' @ num_const_funcname
      in [('''', 0),
          (''integer '' @ substmt @ ''('' @ errvar_str @ '')'', 1),
          (''! Return the number of constituent fields for this run'', 2),
          ('''', 0),
          (''! Dummy arguments'', 2)] @
         host_dummy_args write_def host err_vars @
         [('''', 0),
          (num_const_funcname @ '' = '' @ const_obj_name @ ''%num_constituents(''
            @ err_callstr @ '')'', 2),
          (''end '' @ substmt, 1)])"

text \<open>Lines 503 to 517: the routine that copies the constituents in.\<close>

definition copy_in_routine ::
  "(var \<Rightarrow> int \<Rightarrow> 'h \<Rightarrow> outfile) \<Rightarrow> 'h \<Rightarrow> string \<Rightarrow> string \<Rightarrow> var list \<Rightarrow> outfile" where
  "copy_in_routine write_def host copy_in_funcname const_obj_name err_vars =
     (let errvar_str = errvar_str err_vars;
          substmt = ''subroutine '' @ copy_in_funcname
      in [('''', 0),
          (substmt @ ''(const_array, '' @ errvar_str @ '')'', 1),
          (''! Copy constituent field info into <const_array>'', 2),
          ('''', 0),
          (''! Dummy arguments'', 2),
          (''real(kind_phys),    intent(out)   :: const_array(:,:,:)'', 2)] @
         host_dummy_args write_def host err_vars @
         [('''', 0),
          (''call '' @ const_obj_name @ ''%copy_in(const_array, '' @ err_callstr @ '')'', 2),
          (''end '' @ substmt, 1)])"

text \<open>Lines 518 to 532: the routine that copies the constituents out.\<close>

definition copy_out_routine ::
  "(var \<Rightarrow> int \<Rightarrow> 'h \<Rightarrow> outfile) \<Rightarrow> 'h \<Rightarrow> string \<Rightarrow> string \<Rightarrow> var list \<Rightarrow> outfile" where
  "copy_out_routine write_def host copy_out_funcname const_obj_name err_vars =
     (let errvar_str = errvar_str err_vars;
          substmt = ''subroutine '' @ copy_out_funcname
      in [('''', 0),
          (substmt @ ''(const_array, '' @ errvar_str @ '')'', 1),
          (''! Update constituent field info from <const_array>'', 2),
          ('''', 0),
          (''! Dummy arguments'', 2),
          (''real(kind_phys),    intent(in)    :: const_array(:,:,:)'', 2)] @
         host_dummy_args write_def host err_vars @
         [('''', 0),
          (''call '' @ const_obj_name @ ''%copy_out(const_array, '' @ err_callstr
            @ '')'', 2),
          (''end '' @ substmt, 1)])"

text \<open>\<open>write_host_routines\<close>, lines 380 to 532.\<close>

definition write_host_routines ::
  "(var \<Rightarrow> int \<Rightarrow> 'h \<Rightarrow> outfile) \<Rightarrow> outfile \<Rightarrow> 'h \<Rightarrow>
   routine_name \<Rightarrow> routine_name \<Rightarrow> routine_name \<Rightarrow> routine_name \<Rightarrow>
   string \<Rightarrow> string \<Rightarrow> string \<Rightarrow> suite list \<Rightarrow> var list \<Rightarrow> writer_result" where
  "write_host_routines write_def cap host reg_funcname num_const_funcname copy_in_funcname
       copy_out_funcname const_obj_name const_names_name const_indices_name suite_list
       err_vars =
     (let substmt = ''subroutine '' @ reg_funcname;
          cap1 = cap @ reg_routine_head reg_funcname err_vars
      in case write_constituent_use_statements cap1 suite_list 2 of
           Inl e \<Rightarrow> Inl e
         | Inr cap2 \<Rightarrow>
             Inr (cap2 @
                  reg_routine_decls write_def host err_vars @
                  concat (map (count_suite_lines err_vars) suite_list) @
                  init_table_lines const_obj_name @
                  concat (map (add_suite_lines const_obj_name err_vars) suite_list) @
                  lock_table_lines const_obj_name @
                  index_loop_lines const_obj_name const_names_name const_indices_name @
                  [(''end '' @ substmt, 1)] @
                  num_consts_routine write_def host num_const_funcname const_obj_name
                    err_vars @
                  copy_in_routine write_def host copy_in_funcname const_obj_name err_vars @
                  copy_out_routine write_def host copy_out_funcname const_obj_name
                    err_vars))"

subsection \<open>Sample inputs\<close>

text \<open>
  The two error variables of the \<open>errflg\<close>/\<open>errmsg\<close> convention, a \<open>write_def\<close> that
  writes one line for a variable, and a dictionary with one constituent.
\<close>

definition errflg_var :: var where
  "errflg_var =
     \<lparr>var_standard_name = ''ccpp_error_flag'', var_local_name = ''errflg'',
      var_dimensions = [], var_advected = False, var_is_constituent = False,
      var_intent = Some ''out'', var_source_type = ''host''\<rparr>"

definition errmsg_var :: var where
  "errmsg_var =
     \<lparr>var_standard_name = ''ccpp_error_message'', var_local_name = ''errmsg'',
      var_dimensions = [], var_advected = False, var_is_constituent = False,
      var_intent = Some ''out'', var_source_type = ''host''\<rparr>"

definition sample_write_def :: "var \<Rightarrow> int \<Rightarrow> cvdict \<Rightarrow> outfile" where
  "sample_write_def evar indent self = [(''! '' @ var_local_name evar, indent)]"

definition sample_dict :: cvdict where
  "sample_dict =
     ConstituentVarDict ''cam''
       [(''cloud_liquid'',
         \<lparr>var_standard_name = ''cloud_liquid'', var_local_name = ''ql'',
          var_dimensions = [''horizontal_dimension'', ''vertical_layer_dimension''],
          var_advected = True, var_is_constituent = True,
          var_intent = None, var_source_type = ''suite''\<rparr>)]
       None"

section \<open>Properties of \<open>find_variable\<close>\<close>

subsection \<open>Argument checking\<close>

lemma check_standard_name_parent:
  "check_standard_name standard_name source_var = Inr sname \<Longrightarrow>
   check_standard_name (Some sname) source_var = Inr sname"
  by (auto simp: check_standard_name_def split: option.splits if_splits)

text \<open>The lookup of the base class returns whenever its name arguments pass the check.\<close>

lemma VarDictionary_find_variable_checked:
  "check_standard_name standard_name source_var = Inr sname \<Longrightarrow>
   \<exists>found. VarDictionary_find_variable p standard_name source_var any_scope clone
             search_call_list loop_subst = Inr (found, p)"
proof (induction p arbitrary: standard_name clone rule: var_dictionary.induct)
  case (VarDictionary name vars parent)
  show ?case
  proof (cases "if any_scope then parent else None")
    case None
    with VarDictionary.prems show ?thesis
      by (auto split: option.splits)
  next
    case (Some q)
    then have parent: "parent = Some q" and scope: any_scope
      by (auto split: if_splits)
    obtain found where "VarDictionary_find_variable q (Some sname) source_var any_scope None
                 search_call_list loop_subst = Inr (found, q)"
      using VarDictionary.IH [of q "Some sname" None] parent
        check_standard_name_parent [OF VarDictionary.prems]
      by auto
    with parent scope VarDictionary.prems show ?thesis
      by (auto split: option.splits)
  qed
qed

text \<open>A call that passes the check returns, when the call on the parent does.\<close>

lemma find_variable_checked:
  assumes "check_standard_name standard_name source_var = Inr sname"
    and "\<And>p. \<exists>r. parent_find_variable p (Some sname) source_var any_scope None
                  search_call_list loop_subst = Inr r"
  shows "\<exists>r. find_variable parent_find_variable d standard_name source_var any_scope clone
               search_call_list loop_subst = Inr r"
proof (cases "if any_scope then parent_dict d else None")
  case None
  with assms(1) show ?thesis
    by (auto simp: find_variable_def split: option.splits)
next
  case (Some p)
  obtain r where "parent_find_variable p (Some sname) source_var any_scope None
                    search_call_list loop_subst = Inr r"
    using assms(2) by blast
  with Some assms(1) show ?thesis
    by (cases r) (auto simp: find_variable_def split: option.splits)
qed

lemma find_variable_unchecked:
  "check_standard_name standard_name source_var = Inl e \<Longrightarrow>
   find_variable parent_find_variable d standard_name source_var any_scope clone
     search_call_list loop_subst = Inl e"
  by (simp add: find_variable_def)

text \<open>
  C7: \<open>find_variable\<close> raises \<open>ParseInternalError\<close> exactly when both
  \<open>standard_name\<close> and \<open>source_var\<close> are omitted, or both are passed and the standard
  name of \<open>source_var\<close> differs from \<open>standard_name\<close>; with one of them passed, or
  both with the same name, the call returns. The parent's method is the lookup of the
  base class.
\<close>

theorem find_variable_raises_iff:
  "((\<exists>msg. find_variable VarDictionary_find_variable d standard_name source_var any_scope
             clone search_call_list loop_subst = Inl (ParseInternalError msg)) =
    ((standard_name = None \<and> source_var = None) \<or>
     (\<exists>sname sv. standard_name = Some sname \<and> source_var = Some sv \<and>
                 var_standard_name sv \<noteq> sname))) \<and>
   ((\<exists>r. find_variable VarDictionary_find_variable d standard_name source_var any_scope
           clone search_call_list loop_subst = Inr r) =
    (\<not> ((standard_name = None \<and> source_var = None) \<or>
         (\<exists>sname sv. standard_name = Some sname \<and> source_var = Some sv \<and>
                     var_standard_name sv \<noteq> sname))))"
proof (cases "check_standard_name standard_name source_var")
  case (Inl e)
  then have run: "find_variable VarDictionary_find_variable d standard_name source_var
               any_scope clone search_call_list loop_subst = Inl e"
    by (rule find_variable_unchecked)
  from Inl have "\<exists>msg. e = ParseInternalError msg"
    by (auto simp: check_standard_name_def split: option.splits if_splits)
  moreover from Inl have
    "(standard_name = None \<and> source_var = None) \<or>
     (\<exists>sname sv. standard_name = Some sname \<and> source_var = Some sv \<and>
                 var_standard_name sv \<noteq> sname)"
    by (auto simp: check_standard_name_def split: option.splits if_splits)
  ultimately show ?thesis using run by auto
next
  case (Inr sname)
  have "\<And>p. \<exists>r. VarDictionary_find_variable p (Some sname) source_var any_scope None
                 search_call_list loop_subst = Inr r"
    using VarDictionary_find_variable_checked [OF check_standard_name_parent [OF Inr]]
    by blast
  then obtain r where
    "find_variable VarDictionary_find_variable d standard_name source_var any_scope clone
       search_call_list loop_subst = Inr r"
    using find_variable_checked [OF Inr] by blast
  moreover from Inr have
    "\<not> ((standard_name = None \<and> source_var = None) \<or>
        (\<exists>sname sv. standard_name = Some sname \<and> source_var = Some sv \<and>
                    var_standard_name sv \<noteq> sname))"
    by (auto simp: check_standard_name_def split: option.splits if_splits)
  ultimately show ?thesis by simp
qed

subsection \<open>The \<open>clone\<close> argument\<close>

text \<open>
  C10: two calls of \<open>find_variable\<close> that differ only in \<open>clone\<close> return the same
  variable (or raise the same error) and leave the same dictionaries, whatever the
  method of the parent does. The parent is called with \<open>None\<close> for \<open>clone\<close>: the result
  is the one obtained with a parent method that is itself given \<open>None\<close> in place of what
  it is passed; and a parent method that returns as the variable found the very
  \<open>clone\<close> it is passed makes \<open>find_variable\<close> return \<open>None\<close>, for every \<open>clone\<close> of
  the caller.
\<close>

theorem find_variable_clone_ignored:
  "find_variable parent_find_variable d standard_name source_var any_scope clone
     search_call_list loop_subst =
   find_variable parent_find_variable d standard_name source_var any_scope clone'
     search_call_list loop_subst \<and>
   find_variable parent_find_variable d standard_name source_var any_scope clone
     search_call_list loop_subst =
   find_variable
     (\<lambda>p sname svar scope passed_clone. parent_find_variable p sname svar scope None)
     d standard_name source_var any_scope clone search_call_list loop_subst \<and>
   find_variable (\<lambda>p sname svar scope passed_clone clist subst. Inr (passed_clone, p))
     (ConstituentVarDict name [] (Some parent)) (Some wanted) None True clone
     search_call_list loop_subst =
   Inr (None, ConstituentVarDict name [] (Some parent))"
  by (simp add: find_variable_def check_standard_name_def add_if_constituent_def)

subsection \<open>Creation of a constituent\<close>

lemma loop_subst_name_other:
  "dstdname \<noteq> ''horizontal_loop_extent'' \<Longrightarrow> dstdname \<noteq> ''horizontal_loop_end'' \<Longrightarrow>
   dstdname \<noteq> ''horizontal_loop_begin'' \<Longrightarrow> loop_subst_name dstdname = dstdname"
  by (simp add: loop_subst_name_def)

lemma str_split_not_Nil: "str_split c s \<noteq> []"
  by (induction s) (auto split: list.splits)

lemma str_join_Cons:
  "ws \<noteq> [] \<Longrightarrow> str_join sep (w # ws) = w @ sep @ str_join sep ws"
  by (cases ws) simp_all

lemma str_join_split: "str_join [c] (str_split c s) = s"
proof (induction s)
  case Nil
  show ?case by simp
next
  case (Cons x xs)
  obtain w ws where sp: "str_split c xs = w # ws"
    using str_split_not_Nil [of c xs] by (cases "str_split c xs") auto
  show ?case
  proof (cases "x = c")
    case True
    with Cons show ?thesis by (simp add: str_join_Cons str_split_not_Nil)
  next
    case False
    with Cons sp show ?thesis by (cases ws) simp_all
  qed
qed

text \<open>A dimension made of other names only is kept as it is.\<close>

lemma loop_subst_dims_other:
  assumes "''horizontal_loop_extent'' \<notin> set (str_split (CHR '':'') dim)"
    and "''horizontal_loop_end'' \<notin> set (str_split (CHR '':'') dim)"
    and "''horizontal_loop_begin'' \<notin> set (str_split (CHR '':'') dim)"
  shows "loop_subst_dims [dim] = [dim]"
proof -
  have "map loop_subst_name (str_split (CHR '':'') dim) = str_split (CHR '':'') dim"
    using assms by (intro map_idI loop_subst_name_other) auto
  then show ?thesis
    by (simp add: loop_subst_dims_def str_join_split)
qed








subsection \<open>Which dictionary receives the new variable\<close>

text \<open>
  The lookup \<open>find_variable\<close> makes itself changes one dictionary at most, its own, and
  by one entry at most, the variable it returns; the parent is after the call as the
  parent's method left it.
\<close>

lemma find_variable_own_table:
  assumes "find_variable parent_find_variable d standard_name source_var any_scope clone
             search_call_list loop_subst = Inr (found, d')"
  shows "dict_name d' = dict_name d \<and>
         (dict_vars d' = dict_vars d \<or>
          (\<exists>newvar. found = Some newvar \<and>
                     dict_vars d' = dict_vars d @ [(var_standard_name newvar, newvar)])) \<and>
         (parent_dict d' = parent_dict d \<or>
          (\<exists>p sname r p'. parent_dict d = Some p \<and>
             parent_find_variable p (Some sname) source_var any_scope None search_call_list
               loop_subst = Inr (r, p') \<and>
             parent_dict d' = Some p'))"
proof -
  have step: "\<And>self fnd. add_if_constituent self fnd source_var = (found, d') \<Longrightarrow>
      dict_name d' = dict_name self \<and> parent_dict d' = parent_dict self \<and>
      (dict_vars d' = dict_vars self \<or>
       (\<exists>newvar. found = Some newvar \<and>
                  dict_vars d' = dict_vars self @ [(var_standard_name newvar, newvar)]))"
  proof -
    fix self fnd
    assume "add_if_constituent self fnd source_var = (found, d')"
    then show "dict_name d' = dict_name self \<and> parent_dict d' = parent_dict self \<and>
      (dict_vars d' = dict_vars self \<or>
       (\<exists>newvar. found = Some newvar \<and>
                  dict_vars d' = dict_vars self @ [(var_standard_name newvar, newvar)]))"
      by (cases self)
        (auto simp: add_if_constituent_def Let_def split: option.splits if_splits)
  qed
  from assms obtain sname where
    chk: "check_standard_name standard_name source_var = Inr sname"
    by (cases "check_standard_name standard_name source_var")
      (simp_all add: find_variable_def)
  show ?thesis
  proof (cases "map_of (dict_vars d) sname")
    case (Some v)
    with assms chk have "add_if_constituent d (Some v) source_var = (found, d')"
      by (simp add: find_variable_def)
    from step [OF this] show ?thesis by simp
  next
    case None
    show ?thesis
    proof (cases "if any_scope then parent_dict d else None")
      case no_parent: None
      with assms chk None have "add_if_constituent d None source_var = (found, d')"
        by (simp add: find_variable_def)
      from step [OF this] show ?thesis by simp
    next
      case (Some p)
      then have parent: "parent_dict d = Some p"
        by (auto split: if_splits)
      from assms chk None Some obtain r p' where
        call: "parent_find_variable p (Some sname) source_var any_scope None
                 search_call_list loop_subst = Inr (r, p')"
        and add: "add_if_constituent
                    (ConstituentVarDict (dict_name d) (dict_vars d) (Some p'))
                    r source_var = (found, d')"
        by (auto simp: find_variable_def split: sum.splits prod.splits)
      from step [OF add] parent call show ?thesis by auto
    qed
  qed
qed

text \<open>The lookup of the base class leaves the dictionary as it is.\<close>

lemma VarDictionary_find_variable_reads:
  "VarDictionary_find_variable p standard_name source_var any_scope clone search_call_list
     loop_subst = Inr (found, p') \<Longrightarrow> p' = p"
  by (cases p) (auto split: sum.splits option.splits if_splits prod.splits)

text \<open>
  A name that the dictionary does not have and a dictionary above it has is returned
  from there, and nothing changes.
\<close>

lemma VarDictionary_find_variable_found:
  assumes "check_standard_name standard_name source_var = Inr sname"
    and "ancestor_lookup sname p = Some v"
  shows "VarDictionary_find_variable p standard_name source_var True clone
           search_call_list loop_subst = Inr (Some v, p)"
  using assms
proof (induction sname p arbitrary: standard_name clone rule: ancestor_lookup.induct)
  case (1 sname name vars)
  then show ?case by simp
next
  case (2 sname name vars p)
  show ?case
  proof (cases "map_of vars sname")
    case None
    have "VarDictionary_find_variable p (Some sname) source_var True None
            search_call_list loop_subst = Inr (Some v, p)"
      using "2.prems" None check_standard_name_parent [OF "2.prems"(1)]
      by (intro "2.IH") simp_all
    with "2.prems" None show ?thesis by simp
  next
    case (Some w)
    with "2.prems" show ?thesis by simp
  qed
qed

lemma find_variable_found_above:
  assumes "check_standard_name standard_name source_var = Inr sname"
    and "map_of (dict_vars d) sname = None"
    and "parent_dict d = Some p"
    and "ancestor_lookup sname p = Some v"
  shows "find_variable VarDictionary_find_variable d standard_name source_var True clone
           search_call_list loop_subst = Inr (Some v, d)"
proof -
  have "VarDictionary_find_variable p (Some sname) source_var True None
          search_call_list loop_subst = Inr (Some v, p)"
    using check_standard_name_parent [OF assms(1)] assms(4)
    by (rule VarDictionary_find_variable_found)
  moreover have "ConstituentVarDict (dict_name d) (dict_vars d) (Some p) = d"
    using assms(3) by (cases d) simp
  ultimately show ?thesis
    using assms(1,2,3) by (simp add: find_variable_def add_if_constituent_def)
qed

text \<open>
  C6: a call of \<open>find_variable\<close> that returns leaves the parent of the dictionary, and
  with it every ancestor, as it was, and leaves the name of the dictionary. Its own
  entries are unchanged, or they are the old entries followed by one new entry, which
  is the variable returned under its standard name, a name the dictionary did not have:
  a variable that is created goes into the dictionary the call was made on and nowhere
  else. The parent's method is the lookup of the base class.
\<close>

theorem find_variable_inserts_locally:
  assumes "find_variable VarDictionary_find_variable d standard_name source_var any_scope
             clone search_call_list loop_subst = Inr (found, d')"
  shows "parent_dict d' = parent_dict d \<and> dict_name d' = dict_name d \<and>
         (dict_vars d' = dict_vars d \<or>
          (\<exists>newvar. found = Some newvar \<and>
                     dict_vars d' = dict_vars d @ [(var_standard_name newvar, newvar)]))"
proof -
  note own = find_variable_own_table [OF assms]
  have "parent_dict d' = parent_dict d"
    using own VarDictionary_find_variable_reads by (auto; blast)
  with own show ?thesis by simp
qed

theorem find_variable_inserts_locally_witness:
  "parent_dict
     (ConstituentVarDict ''cam_constituents''
        [(''cloud_ice'',
          \<lparr>var_standard_name = ''cloud_ice'', var_local_name = ''qi'',
           var_dimensions = [''horizontal_dimension''],
           var_advected = False, var_is_constituent = True,
           var_intent = None, var_source_type = ''suite''\<rparr>)]
        (Some (VarDictionary ''cam'' [] (Some (VarDictionary ''host'' [] None))))) =
   parent_dict
     (ConstituentVarDict ''cam_constituents'' []
        (Some (VarDictionary ''cam'' [] (Some (VarDictionary ''host'' [] None))))) \<and>
   find_variable VarDictionary_find_variable
     (ConstituentVarDict ''cam_constituents'' []
        (Some (VarDictionary ''cam'' [] (Some (VarDictionary ''host'' [] None)))))
     None
     (Some \<lparr>var_standard_name = ''cloud_ice'', var_local_name = ''qi'',
            var_dimensions = [''horizontal_loop_extent''],
            var_advected = False, var_is_constituent = True,
            var_intent = Some ''in'', var_source_type = ''scheme''\<rparr>)
     True None False False =
   Inr (Some \<lparr>var_standard_name = ''cloud_ice'', var_local_name = ''qi'',
               var_dimensions = [''horizontal_dimension''],
               var_advected = False, var_is_constituent = True,
               var_intent = None, var_source_type = ''suite''\<rparr>,
        ConstituentVarDict ''cam_constituents''
          [(''cloud_ice'',
            \<lparr>var_standard_name = ''cloud_ice'', var_local_name = ''qi'',
             var_dimensions = [''horizontal_dimension''],
             var_advected = False, var_is_constituent = True,
             var_intent = None, var_source_type = ''suite''\<rparr>)]
          (Some (VarDictionary ''cam'' [] (Some (VarDictionary ''host'' [] None)))))"
proof -
  have run: "find_variable VarDictionary_find_variable
     (ConstituentVarDict ''cam_constituents'' []
        (Some (VarDictionary ''cam'' [] (Some (VarDictionary ''host'' [] None)))))
     None
     (Some \<lparr>var_standard_name = ''cloud_ice'', var_local_name = ''qi'',
            var_dimensions = [''horizontal_loop_extent''],
            var_advected = False, var_is_constituent = True,
            var_intent = Some ''in'', var_source_type = ''scheme''\<rparr>)
     True None False False =
   Inr (Some \<lparr>var_standard_name = ''cloud_ice'', var_local_name = ''qi'',
               var_dimensions = [''horizontal_dimension''],
               var_advected = False, var_is_constituent = True,
               var_intent = None, var_source_type = ''suite''\<rparr>,
        ConstituentVarDict ''cam_constituents''
          [(''cloud_ice'',
            \<lparr>var_standard_name = ''cloud_ice'', var_local_name = ''qi'',
             var_dimensions = [''horizontal_dimension''],
             var_advected = False, var_is_constituent = True,
             var_intent = None, var_source_type = ''suite''\<rparr>)]
          (Some (VarDictionary ''cam'' [] (Some (VarDictionary ''host'' [] None)))))"
    by (simp add: find_variable_def check_standard_name_def add_if_constituent_def
          var_clone_def loop_subst_dims_def loop_subst_name_def constituent_type_def Let_def)
  from find_variable_inserts_locally [OF run] run show ?thesis
    by simp
qed

section \<open>Properties of \<open>write_constituent_routines\<close>\<close>

subsection \<open>What is written, and when the writer raises\<close>

lemmas name_defs =
  constituent_prop_array_name_def constituent_prop_init_name_def
  constituent_prop_init_consts_def constituent_prop_type_name_def
  num_consts_funcname_def const_name_subname_def copy_const_subname_def

lemmas errvar_defs = errvar_alist_def errvar_alist2_def errvar_call_def errvar_call2_def

lemmas sample_defs = errflg_var_def errmsg_var_def sample_write_def_def sample_dict_def

declare str_of_nat.simps [simp del]

lemma str_of_nat_digit: "n < 10 \<Longrightarrow> str_of_nat n = [''0123456789'' ! n]"
  by (subst str_of_nat.simps) simp

lemma str_of_nat_more:
  "\<not> n < 10 \<Longrightarrow> str_of_nat n = str_of_nat (n div 10) @ [''0123456789'' ! (n mod 10)]"
  by (subst str_of_nat.simps) simp

lemma digit_val: "d < 10 \<Longrightarrow> of_char (''0123456789'' ! d) = (48 + d :: nat)"
proof -
  assume "d < 10"
  then have "d \<in> {0, 1, 2, 3, 4, 5, 6, 7, 8, 9}"
    by auto
  then show ?thesis
    by auto
qed

text \<open>The digits written for a length are the decimal digits of that length.\<close>

lemma nat_of_str_of_nat: "nat_of_str (str_of_nat n) = n"
proof (induction n rule: str_of_nat.induct)
  case (1 n)
  show ?case
  proof (cases "n < 10")
    case True
    then show ?thesis by (simp add: str_of_nat_digit nat_of_str_def digit_val)
  next
    case False
    then have "str_of_nat n = str_of_nat (n div 10) @ [''0123456789'' ! (n mod 10)]"
      by (rule str_of_nat_more)
    moreover have "nat_of_str (str_of_nat (n div 10)) = n div 10"
      using False by (rule "1.IH")
    ultimately show ?thesis
      by (simp add: nat_of_str_def digit_val)
  qed
qed

lemma str_of_nat_not_Nil: "str_of_nat n \<noteq> []"
  by (cases "n < 10") (simp_all add: str_of_nat_digit str_of_nat_more)

lemma digit_mem: "d < 10 \<Longrightarrow> ''0123456789'' ! d \<in> set ''0123456789''"
  by (rule nth_mem) simp

lemma str_of_nat_digits: "set (str_of_nat n) \<subseteq> set ''0123456789''"
proof (induction n rule: str_of_nat.induct)
  case (1 n)
  show ?case
  proof (cases "n < 10")
    case True
    then show ?thesis
      using digit_mem [of n] by (simp only: str_of_nat_digit) simp
  next
    case False
    have "set (str_of_nat (n div 10)) \<subseteq> set ''0123456789''"
      using False by (rule "1.IH")
    moreover have "''0123456789'' ! (n mod 10) \<in> set ''0123456789''"
      by (rule digit_mem) simp
    ultimately show ?thesis
      unfolding str_of_nat_more [OF False] by (simp only: set_append) simp
  qed
qed

lemma digit_zero: "d < 10 \<Longrightarrow> (''0123456789'' ! d = CHR ''0'') = (d = 0)"
proof
  assume "d < 10" and "''0123456789'' ! d = CHR ''0''"
  then have "(48 + d :: nat) = of_char (CHR ''0'')"
    using digit_val [of d] by simp
  then show "d = 0" by simp
next
  assume "d = 0"
  then show "''0123456789'' ! d = CHR ''0''" by simp
qed

lemma str_of_nat_hd: "(hd (str_of_nat n) = CHR ''0'') = (n = 0)"
proof (induction n rule: str_of_nat.induct)
  case (1 n)
  show ?case
  proof (cases "n < 10")
    case True
    then show ?thesis
      by (simp add: str_of_nat_digit digit_zero)
  next
    case False
    have "(hd (str_of_nat (n div 10)) = CHR ''0'') = (n div 10 = 0)"
      using False by (rule "1.IH")
    moreover have "n div 10 \<noteq> 0" and "n \<noteq> 0"
      using False by auto
    ultimately show ?thesis
      unfolding str_of_nat_more [OF False]
      by (simp add: str_of_nat_not_Nil)
  qed
qed

lemma str_of_nat_zero: "(str_of_nat n = ''0'') = (n = 0)"
proof
  assume "str_of_nat n = ''0''"
  then have "nat_of_str (str_of_nat n) = nat_of_str ''0''"
    by simp
  moreover have "nat_of_str ''0'' = 0"
    by (simp add: nat_of_str_def)
  ultimately show "n = 0"
    by (simp only: nat_of_str_of_nat)
next
  assume "n = 0"
  then show "str_of_nat n = ''0''"
    by (simp add: str_of_nat_digit)
qed

text \<open>No zero in front, but for the numeral of zero itself.\<close>

lemma str_of_nat_leading: "(hd (str_of_nat n) = CHR ''0'') = (str_of_nat n = ''0'')"
  by (simp only: str_of_nat_hd str_of_nat_zero)

lemma sublist_in_chain: "sublist xs (ps @ xs @ ss)"
  by simp

lemma write_constituent_routines_returns:
  assumes "''errflg'' \<in> set (map var_local_name err_vars)"
    and "''errmsg'' \<in> set (map var_local_name err_vars)"
  shows "write_constituent_routines write_def self outfile indent suite_name err_vars =
         Inr (outfile @
              init_routine_lines write_def self indent err_vars @
              count_routine_lines write_def self indent err_vars @
              name_routine_head write_def self indent err_vars @
              [('''', 0), (''errflg = 0'', indent + 1), (''errmsg = '' @ sq @ sq, indent + 1)] @
              init_check_lines indent suite_name @
              index_check_lines self indent @
              name_routine_tail self indent err_vars @
              copy_routine_head write_def self indent err_vars @
              [('''', 0), (''errflg = 0'', indent + 1), (''errmsg = '' @ sq @ sq, indent + 1)] @
              init_check_lines indent suite_name @
              index_check_lines self indent @
              copy_routine_tail self indent)"
  using assms
  by (simp add: write_constituent_routines_def write_init_check_def write_index_check_def
        Let_def)

lemma write_constituent_routines_raises:
  assumes "\<not> (''errflg'' \<in> set (map var_local_name err_vars) \<and>
              ''errmsg'' \<in> set (map var_local_name err_vars))"
  shows "write_constituent_routines write_def self outfile indent suite_name err_vars =
         Inl (ParseInternalError ''Alternative to errflg not implemented'',
              outfile @
              init_routine_lines write_def self indent err_vars @
              count_routine_lines write_def self indent err_vars @
              name_routine_head write_def self indent err_vars @
              [('''', 0)])"
  using assms
  by (auto simp add: write_constituent_routines_def write_init_check_def
        write_index_check_def Let_def)

lemma init_routine_lines_not_Nil: "init_routine_lines write_def self indent err_vars \<noteq> []"
  by (simp add: init_routine_lines_def Let_def)

subsection \<open>The error variables\<close>

text \<open>
  C2, as the code has it: when the local names of \<open>err_vars\<close> do not include both
  \<open>errflg\<close> and \<open>errmsg\<close>, \<open>write_constituent_routines\<close> raises \<open>ParseInternalError\<close>
  ("Alternative to errflg not implemented"), and it does so in the first
  \<open>_write_init_check\<close>: by then the routine that defines the constituents, the
  function that counts them, the head of the routine that returns a name and an empty
  line are in the file. When the names include both, whatever else they include, it
  returns.
\<close>

theorem write_constituent_routines_errvars:
  "if ''errflg'' \<in> set (map var_local_name err_vars) \<and>
      ''errmsg'' \<in> set (map var_local_name err_vars)
   then \<not> isl (write_constituent_routines write_def self outfile indent suite_name err_vars)
   else write_constituent_routines write_def self outfile indent suite_name err_vars =
        Inl (ParseInternalError ''Alternative to errflg not implemented'',
             outfile @
             init_routine_lines write_def self indent err_vars @
             count_routine_lines write_def self indent err_vars @
             name_routine_head write_def self indent err_vars @
             [('''', 0)])"
proof (cases "''errflg'' \<in> set (map var_local_name err_vars) \<and>
              ''errmsg'' \<in> set (map var_local_name err_vars)")
  case True
  then show ?thesis
    using write_constituent_routines_returns [of err_vars write_def self outfile indent
        suite_name]
    by simp
next
  case False
  then show ?thesis
    using write_constituent_routines_raises [of err_vars write_def self outfile indent
        suite_name]
    by simp
qed

theorem write_constituent_routines_errvars_witness:
  "write_constituent_routines sample_write_def sample_dict [] 0 ''cam'' [errflg_var] =
     Inl (ParseInternalError ''Alternative to errflg not implemented'',
          init_routine_lines sample_write_def sample_dict 0 [errflg_var] @
          count_routine_lines sample_write_def sample_dict 0 [errflg_var] @
          name_routine_head sample_write_def sample_dict 0 [errflg_var] @
          [('''', 0)]) \<and>
   \<not> isl (write_constituent_routines sample_write_def sample_dict [] 0 ''cam''
            [errflg_var, errmsg_var])"
  using write_constituent_routines_errvars
      [of "[errflg_var]" sample_write_def sample_dict "[]" 0 "''cam''"]
    write_constituent_routines_errvars
      [of "[errflg_var, errmsg_var]" sample_write_def sample_dict "[]" 0 "''cam''"]
  by (simp add: errflg_var_def errmsg_var_def)

text \<open>
  C2 as stated fails twice. With no error variable at all the writer raises, but the
  file is not empty then; and with a third error variable beside \<open>errflg\<close> and
  \<open>errmsg\<close> the names are not exactly the pair, yet the writer returns.
\<close>

theorem write_constituent_routines_partial_output:
  "isl (write_constituent_routines sample_write_def sample_dict [] 0 ''cam'' []) \<and>
   written (write_constituent_routines sample_write_def sample_dict [] 0 ''cam'' []) \<noteq> [] \<and>
   \<not> isl (write_constituent_routines sample_write_def sample_dict [] 0 ''cam''
            [errflg_var, errmsg_var, errflg_var\<lparr>var_local_name := ''errcode''\<rparr>])"
  using write_constituent_routines_raises [of "[]" sample_write_def sample_dict "[]" 0 "''cam''"]
    write_constituent_routines_returns
      [of "[errflg_var, errmsg_var, errflg_var\<lparr>var_local_name := ''errcode''\<rparr>]"
          sample_write_def sample_dict "[]" 0 "''cam''"]
  by (simp add: errflg_var_def errmsg_var_def init_routine_lines_not_Nil)

subsection \<open>The check of the index\<close>

text \<open>
  C3: for a dictionary without entries the check of the index sets \<open>errflg = 1\<close>
  whatever the index, and the message should name the suite. The message the code
  writes does not: \<open>suite_name\<close> is not formatted into the line, which keeps the
  placeholder \<open>{}\<close>, the same two lines for every suite.
\<close>

theorem write_index_check_empty:
  "write_index_check (ConstituentVarDict name [] parent) outfile indent suite_name
     errvar_names True =
   Inr (outfile @
        [(''errflg = 1'', indent + 1),
         (''write(errmsg, '' @ sq @ ''(a,i0,a)'' @ sq @ '') '' @ sq
           @ ''ERROR: suite, {}, has no constituents'' @ sq, indent + 1)])"
  by (simp add: write_index_check_def index_check_lines_def)

subsection \<open>The routine that returns a name\<close>

lemma init_check_lines_eq:
  "init_check_lines indent suite_name =
     [(''! Make sure that our constituent array is initialized'', indent + 1)] @
     [(''if (.not. ccpp_constituents_initialized) then'', indent + 1),
      (''errflg = 1'', indent + 2),
      (''errmsg = '' @ dq @ ''constituent properties not initialized for suite, ''
        @ suite_name @ dq, indent + 2),
      (''end if'', indent + 1)]"
  by (simp add: init_check_lines_def name_defs)

lemma index_check_lines_nonempty:
  "index_check_lines (ConstituentVarDict name (entry # entries) parent) indent =
     [(''if (index < 1) then'', indent + 1),
      (''errflg = 1'', indent + 2),
      (''write(errmsg, '' @ sq @ ''(a,i0,a)'' @ sq @ '') '' @ sq @ ''ERROR: index ('' @ sq
        @ '',index,'' @ sq @ '') too small, must be >= 1'' @ sq, indent + 2),
      (''else if (index > SIZE(ccpp_constituent_array)) then'', indent + 1),
      (''errflg = 1'', indent + 2),
      (''write(errmsg, '' @ sq @ ''(2(a,i0))'' @ sq @ '') '' @ sq @ ''ERROR: index ('' @ sq
        @ '',index,'' @ sq @ '') too large, must be <= '' @ sq
        @ '', SIZE(ccpp_constituent_array)'', indent + 2),
      (''end if'', indent + 1)]"
  by (simp add: index_check_lines_def name_defs)

lemma name_routine_tail_nonempty:
  "name_routine_tail (ConstituentVarDict name (entry # entries) parent) indent
     [errflg_var, errmsg_var] =
     [(''call '' @ ''ccpp_constituent_array(index)%standard_name(name_out, ''
        @ ''errflg=errflg, errmsg=errmsg)'', indent + 1),
      (''end subroutine '' @ name @ ''_const_name'', indent)] @
     [routine_separator]"
  by (simp add: name_routine_tail_def name_defs errvar_defs sample_defs)

lemma name_routine_written:
  "sublist
     [(''if (.not. ccpp_constituents_initialized) then'', indent + 1),
      (''errflg = 1'', indent + 2),
      (''errmsg = '' @ dq @ ''constituent properties not initialized for suite, ''
        @ suite_name @ dq, indent + 2),
      (''end if'', indent + 1),
      (''if (index < 1) then'', indent + 1),
      (''errflg = 1'', indent + 2),
      (''write(errmsg, '' @ sq @ ''(a,i0,a)'' @ sq @ '') '' @ sq @ ''ERROR: index ('' @ sq
        @ '',index,'' @ sq @ '') too small, must be >= 1'' @ sq, indent + 2),
      (''else if (index > SIZE(ccpp_constituent_array)) then'', indent + 1),
      (''errflg = 1'', indent + 2),
      (''write(errmsg, '' @ sq @ ''(2(a,i0))'' @ sq @ '') '' @ sq @ ''ERROR: index ('' @ sq
        @ '',index,'' @ sq @ '') too large, must be <= '' @ sq
        @ '', SIZE(ccpp_constituent_array)'', indent + 2),
      (''end if'', indent + 1),
      (''call '' @ ''ccpp_constituent_array(index)%standard_name(name_out, ''
        @ ''errflg=errflg, errmsg=errmsg)'', indent + 1),
      (''end subroutine '' @ name @ ''_const_name'', indent)]
     (written (write_constituent_routines write_def
        (ConstituentVarDict name (entry # entries) parent) outfile indent suite_name
        [errflg_var, errmsg_var]))"
  (is "sublist ?seg (written (write_constituent_routines _ ?self _ _ _ _))")
proof -
  have names: "''errflg'' \<in> set (map var_local_name [errflg_var, errmsg_var])"
    "''errmsg'' \<in> set (map var_local_name [errflg_var, errmsg_var])"
    by (simp_all add: sample_defs)
  have seg: "init_check_lines indent suite_name @ index_check_lines ?self indent @
             name_routine_tail ?self indent [errflg_var, errmsg_var] @ rest =
             [(''! Make sure that our constituent array is initialized'', indent + 1)] @
             ?seg @ [routine_separator] @ rest" for rest
    unfolding init_check_lines_eq index_check_lines_nonempty name_routine_tail_nonempty
    by simp
  show ?thesis
    unfolding write_constituent_routines_returns [OF names] written.simps seg
    using sublist_in_chain [of ?seg
        "outfile @ init_routine_lines write_def ?self indent [errflg_var, errmsg_var] @
         count_routine_lines write_def ?self indent [errflg_var, errmsg_var] @
         name_routine_head write_def ?self indent [errflg_var, errmsg_var] @
         [('''', 0), (''errflg = 0'', indent + 1), (''errmsg = '' @ sq @ sq, indent + 1)] @
         [(''! Make sure that our constituent array is initialized'', indent + 1)]"]
    by (simp only: append_assoc)
qed

text \<open>
  The statements of that text that run, for every outcome of the three conditions:
  the bodies of the checks whose conditions hold, and then, in every case, the read.
\<close>

lemma name_routine_execution:
  "executed holds (map fst
     [(''if (.not. ccpp_constituents_initialized) then'', indent + 1),
      (''errflg = 1'', indent + 2),
      (''errmsg = '' @ dq @ ''constituent properties not initialized for suite, ''
        @ suite_name @ dq, indent + 2),
      (''end if'', indent + 1),
      (''if (index < 1) then'', indent + 1),
      (''errflg = 1'', indent + 2),
      (''write(errmsg, '' @ sq @ ''(a,i0,a)'' @ sq @ '') '' @ sq @ ''ERROR: index ('' @ sq
        @ '',index,'' @ sq @ '') too small, must be >= 1'' @ sq, indent + 2),
      (''else if (index > SIZE(ccpp_constituent_array)) then'', indent + 1),
      (''errflg = 1'', indent + 2),
      (''write(errmsg, '' @ sq @ ''(2(a,i0))'' @ sq @ '') '' @ sq @ ''ERROR: index ('' @ sq
        @ '',index,'' @ sq @ '') too large, must be <= '' @ sq
        @ '', SIZE(ccpp_constituent_array)'', indent + 2),
      (''end if'', indent + 1),
      (''call '' @ ''ccpp_constituent_array(index)%standard_name(name_out, ''
        @ ''errflg=errflg, errmsg=errmsg)'', indent + 1),
      (''end subroutine '' @ name @ ''_const_name'', indent)]) =
   (if holds ''if (.not. ccpp_constituents_initialized) then''
    then [''errflg = 1'',
          ''errmsg = '' @ dq @ ''constituent properties not initialized for suite, ''
            @ suite_name @ dq]
    else []) @
   (if holds ''if (index < 1) then''
    then [''errflg = 1'',
          ''write(errmsg, '' @ sq @ ''(a,i0,a)'' @ sq @ '') '' @ sq @ ''ERROR: index (''
            @ sq @ '',index,'' @ sq @ '') too small, must be >= 1'' @ sq]
    else if holds ''else if (index > SIZE(ccpp_constituent_array)) then''
    then [''errflg = 1'',
          ''write(errmsg, '' @ sq @ ''(2(a,i0))'' @ sq @ '') '' @ sq @ ''ERROR: index (''
            @ sq @ '',index,'' @ sq @ '') too large, must be <= '' @ sq
            @ '', SIZE(ccpp_constituent_array)'']
    else []) @
   [''call '' @ ''ccpp_constituent_array(index)%standard_name(name_out, ''
      @ ''errflg=errflg, errmsg=errmsg)'',
    ''end subroutine '' @ name @ ''_const_name'']"
  by (simp add: executed_def Let_def)

text \<open>
  C4: for a dictionary with entries, the routine that returns a name checks the
  initialized flag, then the index against \<open>SIZE\<close> of the array ("too small" below 1,
  "too large" above the size), each check setting \<open>errflg = 1\<close> and a message; the read
  of the name should run only when both checks pass. In the text the code writes, the
  read follows the \<open>end if\<close> of the second check at the indent of the two \<open>if\<close>
  statements: it is inside neither of them and nothing tests \<open>errflg\<close> before it. It
  is among the statements that run whatever the conditions of the checks are, also for
  an index below 1.
\<close>

theorem name_routine_read_unguarded:
  "let body =
     [(''if (.not. ccpp_constituents_initialized) then'', indent + 1),
      (''errflg = 1'', indent + 2),
      (''errmsg = '' @ dq @ ''constituent properties not initialized for suite, ''
        @ suite_name @ dq, indent + 2),
      (''end if'', indent + 1),
      (''if (index < 1) then'', indent + 1),
      (''errflg = 1'', indent + 2),
      (''write(errmsg, '' @ sq @ ''(a,i0,a)'' @ sq @ '') '' @ sq @ ''ERROR: index ('' @ sq
        @ '',index,'' @ sq @ '') too small, must be >= 1'' @ sq, indent + 2),
      (''else if (index > SIZE(ccpp_constituent_array)) then'', indent + 1),
      (''errflg = 1'', indent + 2),
      (''write(errmsg, '' @ sq @ ''(2(a,i0))'' @ sq @ '') '' @ sq @ ''ERROR: index ('' @ sq
        @ '',index,'' @ sq @ '') too large, must be <= '' @ sq
        @ '', SIZE(ccpp_constituent_array)'', indent + 2),
      (''end if'', indent + 1),
      (''call '' @ ''ccpp_constituent_array(index)%standard_name(name_out, ''
        @ ''errflg=errflg, errmsg=errmsg)'', indent + 1),
      (''end subroutine '' @ name @ ''_const_name'', indent)]
   in sublist body
        (written (write_constituent_routines write_def
           (ConstituentVarDict name (entry # entries) parent) outfile indent suite_name
           [errflg_var, errmsg_var])) \<and>
      ''call '' @ ''ccpp_constituent_array(index)%standard_name(name_out, ''
       @ ''errflg=errflg, errmsg=errmsg)''
        \<in> set (executed holds (map fst body))"
  (is "Let ?body _")
proof -
  have runs:
    "''call '' @ ''ccpp_constituent_array(index)%standard_name(name_out, ''
       @ ''errflg=errflg, errmsg=errmsg)''
       \<in> set (executed holds (map fst ?body))"
    unfolding name_routine_execution by simp
  show ?thesis
    unfolding Let_def
    by (rule conjI [OF name_routine_written runs])
qed

subsection \<open>The function that counts the constituents\<close>

lemma count_routine_lines_eq:
  "count_routine_lines write_def self indent err_vars =
     ([(''integer function '' @ dict_name self @ ''_num_consts'' @ ''(''
         @ str_join '', '' (map var_local_name err_vars) @ '')'', indent),
       (''! Return the number of constituents for this suite'', indent + 1),
       (''! Dummy arguments'', indent + 1)] @
      concat (map (\<lambda>evar. write_def evar (indent + 1) self) err_vars) @
      [(''! Make sure that our constituent array is initialized'', indent + 1),
       (''if (.not. ccpp_constituents_initialized) then'', indent + 1),
       (''call ccpp_create_constituent_array('' @ str_join '', '' (map (\<lambda>x. x
         @ ''='' @ x) (map var_local_name err_vars)) @ '')'', indent + 2),
       (''end if'', indent + 1),
       (dict_name self @ ''_num_consts'' @ '' = ''
         @ str_of_nat (length (dict_vars self)), indent + 1),
       (''end function '' @ dict_name self @ ''_num_consts'', indent)]) @
     [routine_separator]"
  by (simp add: count_routine_lines_def Let_def name_defs write_dummy_args_def errvar_defs)

lemma count_routine_segment:
  "sublist
     ([(''integer function '' @ dict_name self @ ''_num_consts'' @ ''(''
         @ str_join '', '' (map var_local_name err_vars) @ '')'', indent),
       (''! Return the number of constituents for this suite'', indent + 1),
       (''! Dummy arguments'', indent + 1)] @
      concat (map (\<lambda>evar. write_def evar (indent + 1) self) err_vars) @
      [(''! Make sure that our constituent array is initialized'', indent + 1),
       (''if (.not. ccpp_constituents_initialized) then'', indent + 1),
       (''call ccpp_create_constituent_array('' @ str_join '', '' (map (\<lambda>x. x
         @ ''='' @ x) (map var_local_name err_vars)) @ '')'', indent + 2),
       (''end if'', indent + 1),
       (dict_name self @ ''_num_consts'' @ '' = ''
         @ str_of_nat (length (dict_vars self)), indent + 1),
       (''end function '' @ dict_name self @ ''_num_consts'', indent)])
     (written (write_constituent_routines write_def self outfile indent suite_name err_vars))"
  (is "sublist ?seg _")
proof (cases "''errflg'' \<in> set (map var_local_name err_vars) \<and>
              ''errmsg'' \<in> set (map var_local_name err_vars)")
  case True
  show ?thesis
    unfolding write_constituent_routines_returns [OF conjunct1 [OF True] conjunct2 [OF True]]
      written.simps count_routine_lines_eq
    using sublist_in_chain
      [of ?seg "outfile @ init_routine_lines write_def self indent err_vars"]
    by (simp only: append_assoc)
next
  case False
  show ?thesis
    unfolding write_constituent_routines_raises [OF False] written.simps
      count_routine_lines_eq
    using sublist_in_chain
      [of ?seg "outfile @ init_routine_lines write_def self indent err_vars"]
    by (simp only: append_assoc)
qed

text \<open>
  C9: the function that counts the constituents is written whatever the error
  variables are. After its comments and the declarations of its dummy arguments, its
  first statement tests the initialized flag and calls the routine that defines the
  constituents when the flag is false; its next statement assigns to the function's
  result the decimal numeral of the number of entries the dictionary has when the text
  is written. The numeral is a string of the digits 0 to 9 that is not empty, has no
  zero in front unless it is the numeral \<open>0\<close>, and stands for that number.
\<close>

theorem count_routine_written:
  "\<exists>digits.
     nat_of_str digits = length (dict_vars self) \<and>
     digits \<noteq> [] \<and>
     set digits \<subseteq> set ''0123456789'' \<and>
     (hd digits = CHR ''0'') = (digits = ''0'') \<and>
     sublist
       ([(''integer function '' @ dict_name self @ ''_num_consts'' @ ''(''
           @ str_join '', '' (map var_local_name err_vars) @ '')'', indent),
         (''! Return the number of constituents for this suite'', indent + 1),
         (''! Dummy arguments'', indent + 1)] @
        concat (map (\<lambda>evar. write_def evar (indent + 1) self) err_vars) @
        [(''! Make sure that our constituent array is initialized'', indent + 1),
         (''if (.not. ccpp_constituents_initialized) then'', indent + 1),
         (''call ccpp_create_constituent_array('' @ str_join '', '' (map (\<lambda>x. x
           @ ''='' @ x) (map var_local_name err_vars)) @ '')'', indent + 2),
         (''end if'', indent + 1),
         (dict_name self @ ''_num_consts'' @ '' = '' @ digits, indent + 1),
         (''end function '' @ dict_name self @ ''_num_consts'', indent)])
       (written
          (write_constituent_routines write_def self outfile indent suite_name err_vars))"
  by (intro exI [of _ "str_of_nat (length (dict_vars self))"] conjI nat_of_str_of_nat
        str_of_nat_not_Nil str_of_nat_digits str_of_nat_leading count_routine_segment)

subsection \<open>The routine that defines the constituents\<close>

lemma init_entry_lines_eq:
  "init_entry_lines indent (map var_local_name err_vars) =
     (\<lambda>(std_name, var).
        [(''index = index + 1'', indent + 1),
         (''call ccpp_constituent_array(index)%initialize('' @ dq @ std_name @ dq
           @ '', '' @ dq
           @ (if ''vertical_layer_dimension'' \<in> set (get_dim_stdnames var)
              then ''vertical_layer_dimension''
              else if ''vertical_interface_dimension'' \<in> set (get_dim_stdnames var)
              then ''vertical_interface_dimension''
              else '''')
           @ dq @ '', '' @ (if var_advected var then ''.true.'' else ''.false.'')
           @ errvar_call2 (map var_local_name err_vars) @ '')'', indent + 1)])"
  by (rule ext)
     (simp add: init_entry_lines_def Let_def name_defs TF_string_def split: prod.splits)

lemma chain_tail_split: "\<exists>before. a @ b @ c @ d @ e @ f = before @ (d @ e) @ f"
  by (rule exI [of _ "a @ b @ c"]) simp

lemma init_routine_lines_eq:
  "\<exists>before.
     init_routine_lines write_def self indent err_vars =
       before @
       (concat (map (init_entry_lines indent (map var_local_name err_vars)) (dict_vars self)) @
        [(''ccpp_constituents_initialized = .true.'', indent + 1),
         (''end subroutine ccpp_create_constituent_array'', indent)]) @
       [('''', 0), routine_separator]"
proof -
  have tail:
    "[(constituent_prop_init_name @ '' = .true.'', indent + 1),
     (''end subroutine '' @ constituent_prop_init_consts, indent),
     ('''', 0),
     routine_separator] =
     [(''ccpp_constituents_initialized = .true.'', indent + 1),
     (''end subroutine ccpp_create_constituent_array'', indent)] @
     [('''', 0), routine_separator]"
    by (simp add: name_defs)
  show ?thesis
    unfolding init_routine_lines_def Let_def tail by (rule chain_tail_split)
qed

text \<open>
  C5, as the code has it: the routine that defines the constituents has, for every
  entry of the dictionary in its order, an increment of \<open>index\<close> and a call of
  \<open>initialize\<close> on the element of the array, with the key of the entry (its standard
  name), a vertical dimension and the advected flag as \<open>.true.\<close> or \<open>.false.\<close>,
  followed by the error variables as keyword arguments (\<open>errvar_call2\<close>). The vertical
  dimension is the standard name itself, \<open>vertical_layer_dimension\<close> when it is among
  the dimension names of the entry, else \<open>vertical_interface_dimension\<close> when that is,
  else empty. After the last entry the initialized flag is set and the routine ends.
\<close>

theorem init_routine_entries:
  "sublist
     (concat (map
        (\<lambda>(std_name, var).
           [(''index = index + 1'', indent + 1),
            (''call ccpp_constituent_array(index)%initialize('' @ dq @ std_name @ dq
              @ '', '' @ dq
              @ (if ''vertical_layer_dimension'' \<in> set (get_dim_stdnames var)
                 then ''vertical_layer_dimension''
                 else if ''vertical_interface_dimension'' \<in> set (get_dim_stdnames var)
                 then ''vertical_interface_dimension''
                 else '''')
              @ dq @ '', '' @ (if var_advected var then ''.true.'' else ''.false.'')
              @ errvar_call2 (map var_local_name err_vars) @ '')'', indent + 1)])
        (dict_vars self)) @
      [(''ccpp_constituents_initialized = .true.'', indent + 1),
       (''end subroutine ccpp_create_constituent_array'', indent)])
     (written (write_constituent_routines write_def self outfile indent suite_name err_vars))"
  (is "sublist ?seg _")
proof -
  obtain before where init:
    "init_routine_lines write_def self indent err_vars =
       before @
       (concat (map (init_entry_lines indent (map var_local_name err_vars)) (dict_vars self)) @
        [(''ccpp_constituents_initialized = .true.'', indent + 1),
         (''end subroutine ccpp_create_constituent_array'', indent)]) @
       [('''', 0), routine_separator]"
    using init_routine_lines_eq by blast
  show ?thesis
  proof (cases "''errflg'' \<in> set (map var_local_name err_vars) \<and>
                ''errmsg'' \<in> set (map var_local_name err_vars)")
    case True
    show ?thesis
      unfolding write_constituent_routines_returns
          [OF conjunct1 [OF True] conjunct2 [OF True]]
        written.simps init init_entry_lines_eq
      using sublist_in_chain [of ?seg "outfile @ before"]
      by (simp only: append_assoc)
  next
    case False
    show ?thesis
      unfolding write_constituent_routines_raises [OF False] written.simps init
        init_entry_lines_eq
      using sublist_in_chain [of ?seg "outfile @ before"]
      by (simp only: append_assoc)
  qed
qed

text \<open>
  C5 as stated gives the vertical dimension as the literal \<open>layer\<close>. For the sample
  dictionary, whose one entry has the dimension \<open>vertical_layer_dimension\<close>, no line of
  the file is the call with \<open>"layer"\<close>; the call that is written has
  \<open>"vertical_layer_dimension"\<close>.
\<close>

theorem init_routine_no_layer_literal:
  "(''call ccpp_constituent_array(index)%initialize('' @ dq @ ''cloud_liquid'' @ dq
       @ '', '' @ dq @ ''layer'' @ dq @ '', .true., errflg=errflg, errmsg=errmsg)'', 1)
     \<notin> set (written (write_constituent_routines sample_write_def sample_dict [] 0 ''cam''
                      [errflg_var, errmsg_var])) \<and>
   (''call ccpp_constituent_array(index)%initialize('' @ dq @ ''cloud_liquid'' @ dq
       @ '', '' @ dq @ ''vertical_layer_dimension'' @ dq
       @ '', .true., errflg=errflg, errmsg=errmsg)'', 1)
     \<in> set (written (write_constituent_routines sample_write_def sample_dict [] 0 ''cam''
                      [errflg_var, errmsg_var]))"
proof -
  have names: "''errflg'' \<in> set (map var_local_name [errflg_var, errmsg_var])"
    "''errmsg'' \<in> set (map var_local_name [errflg_var, errmsg_var])"
    by (simp_all add: sample_defs)
  show ?thesis
    unfolding write_constituent_routines_returns [OF names] written.simps
    by (simp add: init_routine_lines_def count_routine_lines_def name_routine_head_def
          init_check_lines_def index_check_lines_def name_routine_tail_def
          copy_routine_head_def copy_routine_tail_def init_entry_lines_def
          write_dummy_args_def routine_separator_def get_dim_stdnames_def TF_string_def
          Let_def name_defs errvar_defs sample_defs str_of_nat_digit)
qed

section \<open>Properties of \<open>write_host_routines\<close>\<close>

lemma write_host_routines_returns:
  "write_host_routines write_def cap host reg_funcname num_const_funcname copy_in_funcname
       copy_out_funcname const_obj_name const_names_name const_indices_name
       (suite # suites) err_vars =
   Inr (cap @ reg_routine_head reg_funcname err_vars @
        use_statement_lines (suite # suites) 2 @
        reg_routine_decls write_def host err_vars @
        concat (map (count_suite_lines err_vars) (suite # suites)) @
        init_table_lines const_obj_name @
        concat (map (add_suite_lines const_obj_name err_vars) (suite # suites)) @
        lock_table_lines const_obj_name @
        index_loop_lines const_obj_name const_names_name const_indices_name @
        [(''end subroutine '' @ reg_funcname, 1)] @
        num_consts_routine write_def host num_const_funcname const_obj_name err_vars @
        copy_in_routine write_def host copy_in_funcname const_obj_name err_vars @
        copy_out_routine write_def host copy_out_funcname const_obj_name err_vars)"
  unfolding write_host_routines_def write_constituent_use_statements_def Let_def
  by (simp del: concat.simps map_append list.map)

lemma write_host_routines_no_suite:
  "write_host_routines write_def cap host reg_funcname num_const_funcname copy_in_funcname
       copy_out_funcname const_obj_name const_names_name const_indices_name [] err_vars =
   Inl (ValueError ''max() arg is an empty sequence'',
        cap @ reg_routine_head reg_funcname err_vars)"
  by (simp add: write_host_routines_def write_constituent_use_statements_def)

lemma index_loop_lines_eq:
  "index_loop_lines const_obj_name const_names_name const_indices_name @
   [(''end subroutine '' @ reg_funcname, 1)] =
   [(''! Set the index for each active constituent'', 2),
    (''do index = 1, SIZE('' @ const_indices_name @ '')'', 2),
    (''field_ind = '' @ const_obj_name @ ''%field_index('' @ const_names_name
      @ ''(index), errflg=errflg, errmsg=errmsg)'', 3),
    (''if (field_ind > 0) then'', 3),
    (const_indices_name @ ''(index) = field_ind'', 4),
    (''else'', 3),
    (''errflg = 1'', 4),
    (''errmsg = '' @ sq @ ''No field index for '' @ sq @ ''//trim('' @ const_names_name
      @ ''(index))'', 4),
    (''end if'', 3),
    (''if (errflg /= 0) then'', 3),
    (''exit'', 4),
    (''end if'', 3),
    (''end do'', 2),
    (''end subroutine '' @ reg_funcname, 1)]"
  by (simp add: index_loop_lines_def err_callstr_def)

text \<open>
  C8: when there is a suite, the registration routine that \<open>write_host_routines\<close>
  writes ends with a loop over the positions of the caller's index array. At each
  position the field index of the required name at that position is looked up in the
  constituent object; a field index above zero is stored at the same position of the
  index array, otherwise \<open>errflg\<close> is set to 1 and \<open>errmsg\<close> to "No field index for "
  followed by the name; then the loop is left when \<open>errflg\<close> is not zero, so that no
  later position is assigned. The routine ends after the loop.
\<close>

theorem registration_index_loop:
  "sublist
     [(''! Set the index for each active constituent'', 2),
      (''do index = 1, SIZE('' @ const_indices_name @ '')'', 2),
      (''field_ind = '' @ const_obj_name @ ''%field_index('' @ const_names_name
        @ ''(index), errflg=errflg, errmsg=errmsg)'', 3),
      (''if (field_ind > 0) then'', 3),
      (const_indices_name @ ''(index) = field_ind'', 4),
      (''else'', 3),
      (''errflg = 1'', 4),
      (''errmsg = '' @ sq @ ''No field index for '' @ sq @ ''//trim('' @ const_names_name
        @ ''(index))'', 4),
      (''end if'', 3),
      (''if (errflg /= 0) then'', 3),
      (''exit'', 4),
      (''end if'', 3),
      (''end do'', 2),
      (''end subroutine '' @ reg_funcname, 1)]
     (written (write_host_routines write_def cap host reg_funcname num_const_funcname
        copy_in_funcname copy_out_funcname const_obj_name const_names_name
        const_indices_name (suite # suites) err_vars))"
  (is "sublist ?seg _")
proof -
  have loop: "index_loop_lines const_obj_name const_names_name const_indices_name @
              [(''end subroutine '' @ reg_funcname, 1)] @ rest = ?seg @ rest" for rest
    using index_loop_lines_eq [of const_obj_name const_names_name const_indices_name
        reg_funcname]
    by (simp only: append_assoc [symmetric])
  show ?thesis
    unfolding write_host_routines_returns written.simps loop
    using sublist_in_chain [of ?seg
        "cap @ reg_routine_head reg_funcname err_vars @
         use_statement_lines (suite # suites) 2 @
         reg_routine_decls write_def host err_vars @
         concat (map (count_suite_lines err_vars) (suite # suites)) @
         init_table_lines const_obj_name @
         concat (map (add_suite_lines const_obj_name err_vars) (suite # suites)) @
         lock_table_lines const_obj_name"
        "num_consts_routine write_def host num_const_funcname const_obj_name err_vars @
         copy_in_routine write_def host copy_in_funcname const_obj_name err_vars @
         copy_out_routine write_def host copy_out_funcname const_obj_name err_vars"]
    by (simp only: append_assoc)
qed

end
